theory Spec2Isabelle
  imports Main "HOL-Library.Word"
begin

section \<open>Values, exceptions and the environment\<close>

text \<open>
  The job handles whatever \<^verbatim>\<open>response.json()\<close> returns, so the model carries Python's
  JSON values. A float is kept as its IEEE-754 bit pattern (only its truth value is ever
  inspected); a dict is the list of its items in insertion order, keys distinct, read with
  \<open>map_of\<close>. Elements of a \<open>string\<close> stand for the characters of a Python \<^verbatim>\<open>str\<close>.
\<close>

datatype json =
    JNull
  | JBool bool
  | JInt int
  | JFloat "64 word"
  | JStr string
  | JArr "json list"
  | JObj "(string \<times> json) list"

text \<open>
  The instances of Python's \<^verbatim>\<open>Exception\<close>, the class both handlers of the source
  name. \<open>ValueError\<close> stands for that class and its subclasses (the decoding errors
  \<^verbatim>\<open>except ValueError\<close> catches); the string is the message \<^verbatim>\<open>str(e)\<close>.
\<close>

datatype exn_class = ValueError | AttributeError | TypeError | OtherException string

datatype exn = Exn (cls: exn_class) (msg: string)

text \<open>Module-level configuration, read from the process environment (script.py, lines 10-21).\<close>

record config =
  POLYGON_API_KEY :: "string option"
  SF_USER :: "string option"
  SF_PASSWORD :: "string option"
  SF_ACCOUNT :: "string option"
  SF_WAREHOUSE :: "string option"
  SF_DATABASE :: "string option"
  SF_SCHEMA :: "string option"
  SF_TABLE :: string

text \<open>
  What a call of \<^verbatim>\<open>requests.get\<close> returned in a run: the body text and the outcome of
  \<^verbatim>\<open>response.json()\<close>. A run's HTTP environment is the list of the outcomes of its
  successive calls.
\<close>

record response =
  resp_text :: string
  json_result :: "exn + json"

type_synonym http_script = "(exn + response) list"

text \<open>
  The warehouse driver, as the writer sees it: for each call the exception it raises
  there, if any.
\<close>

record warehouse =
  connect_exn :: "exn option"
  cursor_exn :: "exn option"
  execute_exn :: "exn option"
  executemany_exn :: "exn option"
  commit_exn :: "exn option"
  cursor_close_exn :: "exn option"
  conn_close_exn :: "exn option"

type_synonym timestamp = string

text \<open>
  Everything a run does that is visible outside it, in order: one constructor for each
  \<^verbatim>\<open>print\<close> of the source (with the values it interpolates) and one for each call into
  \<^verbatim>\<open>requests\<close>, \<^verbatim>\<open>time\<close> and the warehouse driver.
\<close>

datatype event =
    PrintRequesting json
  | HttpGet json
  | PrintInvalidJSON string
  | PrintPolygonError json
  | PrintNoResults
  | Sleep nat
  | PrintWrote nat string
  | PrintNoTickers
  | SfConnect "string option" "string option" "string option"
              "string option" "string option" "string option"
  | SfCursor
  | PrintConnected
  | SfExecute string
  | PrintTableVerified string
  | SfExecuteMany string "json list list"
  | SfCommit
  | PrintInserted nat string
  | SfCursorClose
  | SfConnClose
  | PrintClosed
  | PrintSnowflakeError exn
  | PrintSyncStarted timestamp
  | PrintSyncCompleted timestamp
  | PrintSyncFailed timestamp exn
  | RunPending

type_synonym 'a result = "event list \<times> (exn + 'a)"

section \<open>Python primitives the source relies on\<close>

fun truthy :: "json \<Rightarrow> bool" where
  "truthy JNull = False"
| "truthy (JBool b) = b"
| "truthy (JInt n) = (n \<noteq> 0)"
| "truthy (JFloat w) = (w \<noteq> 0 \<and> w \<noteq> 0x8000000000000000)"
| "truthy (JStr s) = (s \<noteq> [])"
| "truthy (JArr xs) = (xs \<noteq> [])"
| "truthy (JObj kvs) = (kvs \<noteq> [])"

fun type_name :: "json \<Rightarrow> string" where
  "type_name JNull = ''NoneType''"
| "type_name (JBool b) = ''bool''"
| "type_name (JInt n) = ''int''"
| "type_name (JFloat w) = ''float''"
| "type_name (JStr s) = ''str''"
| "type_name (JArr xs) = ''list''"
| "type_name (JObj kvs) = ''dict''"

text \<open>\<^verbatim>\<open>d.get(k)\<close> and \<^verbatim>\<open>d.get(k, default)\<close> on a dict.\<close>

definition dict_get_default :: "(string \<times> json) list \<Rightarrow> string \<Rightarrow> json \<Rightarrow> json" where
  "dict_get_default d k dflt = (case map_of d k of None \<Rightarrow> dflt | Some v \<Rightarrow> v)"

definition dict_get :: "(string \<times> json) list \<Rightarrow> string \<Rightarrow> json" where
  "dict_get d k = dict_get_default d k JNull"

text \<open>\<^verbatim>\<open>x.get(k)\<close> on any value: only a dict has the method.\<close>

fun py_get :: "json \<Rightarrow> string \<Rightarrow> exn + json" where
  "py_get (JObj d) k = Inr (dict_get d k)"
| "py_get v k =
     Inl (Exn AttributeError (type_name v @ '' object has no attribute get''))"

text \<open>Iterating a value, as \<^verbatim>\<open>list.extend\<close> does with its argument.\<close>

fun py_iter :: "json \<Rightarrow> exn + json list" where
  "py_iter (JArr xs) = Inr xs"
| "py_iter (JStr s) = Inr (map (\<lambda>c. JStr [c]) s)"
| "py_iter (JObj kvs) = Inr (map (\<lambda>kv. JStr (fst kv)) kvs)"
| "py_iter v = Inl (Exn TypeError (type_name v @ '' object is not iterable''))"

text \<open>\<^verbatim>\<open>x += s\<close> for a \<^verbatim>\<open>str\<close> \<open>s\<close>: concatenation on a str, extension by the characters on a list.\<close>

fun py_iadd_str :: "json \<Rightarrow> string \<Rightarrow> exn + json" where
  "py_iadd_str (JStr u) s = Inr (JStr (u @ s))"
| "py_iadd_str (JArr xs) s = Inr (JArr (xs @ map (\<lambda>c. JStr [c]) s))"
| "py_iadd_str v s =
     Inl (Exn TypeError (''unsupported operand type(s) for +=: '' @ type_name v @ '' and str''))"

text \<open>An f-string field holding an environment variable: \<^verbatim>\<open>None\<close> prints as its name.\<close>

definition fmt_env :: "string option \<Rightarrow> string" where
  "fmt_env v = (case v of None \<Rightarrow> ''None'' | Some s \<Rightarrow> s)"

fun str_nat :: "nat \<Rightarrow> string" where
  "str_nat n =
     (if n < 10 then [char_of (48 + n)] else str_nat (n div 10) @ [char_of (48 + n mod 10)])"

text \<open>
  \<^verbatim>\<open>str.lower\<close> and \<^verbatim>\<open>str.upper\<close>, on the letters A to Z and a to z; every other
  character is kept. The source lowers a value only to compare it with \<^verbatim>\<open>"true"\<close> and
  \<^verbatim>\<open>"false"\<close>, and no character outside A to Z lowers to a letter of these two
  words; it raises only the column names of the schema, which are ASCII.
\<close>

definition lower_char :: "char \<Rightarrow> char" where
  "lower_char c =
     (let n = of_char c :: nat in if 65 \<le> n \<and> n \<le> 90 then char_of (n + 32) else c)"

definition upper_char :: "char \<Rightarrow> char" where
  "upper_char c =
     (let n = of_char c :: nat in if 97 \<le> n \<and> n \<le> 122 then char_of (n - 32) else c)"

definition lower :: "string \<Rightarrow> string" where
  "lower s = map lower_char s"

definition upper :: "string \<Rightarrow> string" where
  "upper s = map upper_char s"

fun join :: "string \<Rightarrow> string list \<Rightarrow> string" where
  "join sep [] = []"
| "join sep [x] = x"
| "join sep (x # y # ys) = x @ sep @ join sep (y # ys)"

section \<open>script.py\<close>

definition LIMIT :: nat where
  "LIMIT = 1000"

text \<open>The target schema, a dict literal: its items in the order written.\<close>

definition TARGET_SCHEMA :: "(string \<times> string) list" where
  "TARGET_SCHEMA =
     [(''ticker'', ''VARCHAR''),
      (''name'', ''VARCHAR''),
      (''market'', ''VARCHAR''),
      (''locale'', ''VARCHAR''),
      (''primary_exchange'', ''VARCHAR''),
      (''type'', ''VARCHAR''),
      (''active'', ''BOOLEAN''),
      (''currency_name'', ''VARCHAR''),
      (''cik'', ''VARCHAR''),
      (''composite_figi'', ''VARCHAR''),
      (''share_class_figi'', ''VARCHAR''),
      (''last_updated_utc'', ''TIMESTAMP_NTZ''),
      (''ds'', ''VARCHAR'')]"

subsection \<open>The pagination loop of \<^verbatim>\<open>run_stock_job\<close>\<close>

definition api_key_suffix :: "config \<Rightarrow> string" where
  "api_key_suffix cfg = ''&apiKey='' @ fmt_env (POLYGON_API_KEY cfg)"

definition first_url :: "config \<Rightarrow> string" where
  "first_url cfg =
     ''https://api.polygon.io/v3/reference/tickers'' @
     ''?market=stocks&active=true&order=asc&limit='' @ str_nat LIMIT @ ''&sort=ticker'' @
     api_key_suffix cfg"

text \<open>
  One pass of the loop body on a page that decoded to \<open>data\<close> (lines 61-76): either the
  loop is left (\<open>Inr (Inl tickers)\<close>, a \<^verbatim>\<open>break\<close>) or it goes on with a new url and list
  (\<open>Inr (Inr (url, tickers))\<close>), or an exception leaves the job (\<open>Inl e\<close>).
\<close>

definition page_step ::
  "config \<Rightarrow> json \<Rightarrow> json list \<Rightarrow> event list \<times> (exn + (json list + json \<times> json list))" where
  "page_step cfg data tickers =
     (case data of
        JObj d \<Rightarrow>
          if dict_get d ''status'' \<noteq> JStr ''OK'' then
            ([PrintPolygonError (dict_get d ''error'')], Inr (Inl tickers))
          else
            (let results = dict_get_default d ''results'' (JArr []) in
             if \<not> truthy results then ([PrintNoResults], Inr (Inl tickers))
             else
               (case py_iter results of
                  Inl e \<Rightarrow> ([], Inl e)
                | Inr rs \<Rightarrow>
                    (let tickers' = tickers @ rs; url = dict_get d ''next_url'' in
                     if truthy url then
                       (case py_iadd_str url (api_key_suffix cfg) of
                          Inl e \<Rightarrow> ([], Inl e)
                        | Inr url' \<Rightarrow> ([Sleep 15], Inr (Inr (url', tickers'))))
                     else ([], Inr (Inr (url, tickers'))))))
      | _ \<Rightarrow> ([], Inl (Exn AttributeError (type_name data @ '' object has no attribute get''))))"

text \<open>
  The \<^verbatim>\<open>while url:\<close> loop (lines 50-76). Each pass takes the next outcome of the script;
  \<open>None\<close> says the loop asked for a request the script does not answer, that is, it had
  not stopped when the script ended.
\<close>

fun fetch_pages ::
  "config \<Rightarrow> http_script \<Rightarrow> json \<Rightarrow> json list \<Rightarrow> event list \<Rightarrow> (json list) result option" where
  "fetch_pages cfg [] url tickers tr =
     (if \<not> truthy url then Some (tr, Inr tickers) else None)"
| "fetch_pages cfg (r # rest) url tickers tr =
     (if \<not> truthy url then Some (tr, Inr tickers)
      else
        (let tr1 = tr @ [PrintRequesting url, HttpGet url] in
         case r of
           Inl e \<Rightarrow> Some (tr1, Inl e)
         | Inr resp \<Rightarrow>
             (case json_result resp of
                Inl e \<Rightarrow>
                  if cls e = ValueError
                  then Some (tr1 @ [PrintInvalidJSON (resp_text resp)], Inr tickers)
                  else Some (tr1, Inl e)
              | Inr data \<Rightarrow>
                  (case page_step cfg data tickers of
                     (evs, Inl e) \<Rightarrow> Some (tr1 @ evs, Inl e)
                   | (evs, Inr (Inl acc)) \<Rightarrow> Some (tr1 @ evs, Inr acc)
                   | (evs, Inr (Inr (url', tickers'))) \<Rightarrow>
                       fetch_pages cfg rest url' tickers' (tr1 @ evs)))))"

subsection \<open>\<^verbatim>\<open>write_to_snowflake\<close>\<close>

definition cols_order :: "string list" where
  "cols_order = map fst TARGET_SCHEMA"

text \<open>
  \<^verbatim>\<open>[f"{col.upper()} {TARGET_SCHEMA[col]}" for col in cols_order]\<close>: the keys of the dict
  with the values they index, that is, its items.
\<close>

definition columns_sql :: string where
  "columns_sql = join '', '' (map (\<lambda>(col, ty). upper col @ '' '' @ ty) TARGET_SCHEMA)"

definition create_table_sql :: "config \<Rightarrow> string" where
  "create_table_sql cfg =
     ''CREATE TABLE IF NOT EXISTS '' @ SF_TABLE cfg @ '' ('' @ columns_sql @ '')''"

definition insert_sql :: "config \<Rightarrow> string" where
  "insert_sql cfg =
     ''INSERT INTO '' @ SF_TABLE cfg @ '' ('' @ join '', '' (map upper cols_order) @
     '') VALUES ('' @ join '', '' (map (\<lambda>_. ''%s'') cols_order) @ '')''"

text \<open>Lines 126-127: the text of a boolean becomes the boolean.\<close>

fun coerce :: "json \<Rightarrow> json" where
  "coerce (JStr s) =
     (if lower s = ''true'' \<or> lower s = ''false'' then JBool (lower s = ''true'') else JStr s)"
| "coerce v = v"

text \<open>The inner loop (lines 119-128): the row of one ticker, column by column.\<close>

fun build_row :: "string \<Rightarrow> json \<Rightarrow> string list \<Rightarrow> exn + json list" where
  "build_row ds_value t [] = Inr []"
| "build_row ds_value t (col # cols) =
     (if col = ''ds'' then
        (case build_row ds_value t cols of
           Inl e \<Rightarrow> Inl e
         | Inr row \<Rightarrow> Inr (JStr ds_value # row))
      else
        (case py_get t col of
           Inl e \<Rightarrow> Inl e
         | Inr val \<Rightarrow>
             (case build_row ds_value t cols of
                Inl e \<Rightarrow> Inl e
              | Inr row \<Rightarrow> Inr (coerce val # row))))"

text \<open>The outer loop (lines 117-129).\<close>

fun build_rows :: "string \<Rightarrow> json list \<Rightarrow> exn + json list list" where
  "build_rows ds_value [] = Inr []"
| "build_rows ds_value (t # ts) =
     (case build_row ds_value t cols_order of
        Inl e \<Rightarrow> Inl e
      | Inr row \<Rightarrow>
          (case build_rows ds_value ts of
             Inl e \<Rightarrow> Inl e
           | Inr rows \<Rightarrow> Inr (row # rows)))"

text \<open>Lines 137-139.\<close>

definition close_all :: "warehouse \<Rightarrow> event list \<Rightarrow> unit result" where
  "close_all wh tr =
     (case cursor_close_exn wh of
        Some e \<Rightarrow> (tr @ [SfCursorClose], Inl e)
      | None \<Rightarrow>
          (case conn_close_exn wh of
             Some e \<Rightarrow> (tr @ [SfCursorClose, SfConnClose], Inl e)
           | None \<Rightarrow> (tr @ [SfCursorClose, SfConnClose, PrintClosed], Inr ())))"

text \<open>Lines 132-135.\<close>

definition insert_rows :: "config \<Rightarrow> warehouse \<Rightarrow> json list list \<Rightarrow> event list \<Rightarrow> unit result" where
  "insert_rows cfg wh rows tr =
     (if rows \<noteq> [] then
        (let tr1 = tr @ [SfExecuteMany (insert_sql cfg) rows] in
         case executemany_exn wh of
           Some e \<Rightarrow> (tr1, Inl e)
         | None \<Rightarrow>
             (case commit_exn wh of
                Some e \<Rightarrow> (tr1 @ [SfCommit], Inl e)
              | None \<Rightarrow> (tr1 @ [SfCommit, PrintInserted (length rows) (SF_TABLE cfg)], Inr ())))
      else (tr, Inr ()))"

text \<open>
  The body of the \<^verbatim>\<open>try\<close> (lines 88-139). \<open>today\<close> is what
  \<^verbatim>\<open>date.today().isoformat()\<close> returns at its one evaluation, on line 115.
\<close>

definition write_body :: "config \<Rightarrow> warehouse \<Rightarrow> string \<Rightarrow> json list \<Rightarrow> unit result" where
  "write_body cfg wh today tickers =
     (let tr1 = [SfConnect (SF_USER cfg) (SF_PASSWORD cfg) (SF_ACCOUNT cfg)
                   (SF_WAREHOUSE cfg) (SF_DATABASE cfg) (SF_SCHEMA cfg)] in
      case connect_exn wh of
        Some e \<Rightarrow> (tr1, Inl e)
      | None \<Rightarrow>
          (let tr2 = tr1 @ [SfCursor] in
           case cursor_exn wh of
             Some e \<Rightarrow> (tr2, Inl e)
           | None \<Rightarrow>
               (let tr3 = tr2 @ [PrintConnected, SfExecute (create_table_sql cfg)] in
                case execute_exn wh of
                  Some e \<Rightarrow> (tr3, Inl e)
                | None \<Rightarrow>
                    (let tr4 = tr3 @ [PrintTableVerified (SF_TABLE cfg)]; ds_value = today in
                     case build_rows ds_value tickers of
                       Inl e \<Rightarrow> (tr4, Inl e)
                     | Inr rows \<Rightarrow>
                         (case insert_rows cfg wh rows tr4 of
                            (tr5, Inl e) \<Rightarrow> (tr5, Inl e)
                          | (tr5, Inr _) \<Rightarrow> close_all wh tr5)))))"

text \<open>The function (lines 82-143): the guard, then the body under its handler.\<close>

definition write_to_snowflake :: "config \<Rightarrow> warehouse \<Rightarrow> string \<Rightarrow> json list \<Rightarrow> unit result" where
  "write_to_snowflake cfg wh today tickers =
     (if tickers = [] then ([PrintNoTickers], Inr ())
      else
        (case write_body cfg wh today tickers of
           (tr, Inl e) \<Rightarrow> (tr @ [PrintSnowflakeError e], Inl e)
         | (tr, Inr u) \<Rightarrow> (tr, Inr u)))"

subsection \<open>\<^verbatim>\<open>run_stock_job\<close>\<close>

definition run_stock_job ::
  "config \<Rightarrow> http_script \<Rightarrow> warehouse \<Rightarrow> string \<Rightarrow> unit result option" where
  "run_stock_job cfg script wh today =
     (case fetch_pages cfg script (JStr (first_url cfg)) [] [] of
        None \<Rightarrow> None
      | Some (tr, Inl e) \<Rightarrow> Some (tr, Inl e)
      | Some (tr, Inr tickers) \<Rightarrow>
          (case write_to_snowflake cfg wh today tickers of
             (tr', Inl e) \<Rightarrow> Some (tr @ tr', Inl e)
           | (tr', Inr _) \<Rightarrow>
               Some (tr @ tr' @ [PrintWrote (length tickers) (SF_TABLE cfg)], Inr ())))"

section \<open>scheduler.py\<close>

text \<open>
  The environment of one run of the job: the HTTP script, the warehouse, the date the
  writer reads and the two readings of \<^verbatim>\<open>datetime.now()\<close> the wrapper prints.
\<close>

record run_env =
  env_script :: http_script
  env_warehouse :: warehouse
  env_today :: string
  env_started :: timestamp
  env_ended :: timestamp

text \<open>Lines 11-17.\<close>

definition scheduled_stock_job :: "config \<Rightarrow> run_env \<Rightarrow> unit result option" where
  "scheduled_stock_job cfg env =
     (case run_stock_job cfg (env_script env) (env_warehouse env) (env_today env) of
        None \<Rightarrow> None
      | Some (tr, Inr _) \<Rightarrow>
          Some ([PrintSyncStarted (env_started env)] @ tr @
                [PrintSyncCompleted (env_ended env)], Inr ())
      | Some (tr, Inl e) \<Rightarrow>
          Some ([PrintSyncStarted (env_started env)] @ tr @
                [PrintSyncFailed (env_ended env) e], Inr ()))"

text \<open>
  \<^verbatim>\<open>schedule.run_pending()\<close> with the one registered job: at a poll the job is either
  not due (\<open>None\<close>) or due and run in the given environment; what the job raises,
  \<^verbatim>\<open>run_pending\<close> raises.
\<close>

definition run_pending :: "config \<Rightarrow> run_env option \<Rightarrow> unit result option" where
  "run_pending cfg due =
     (case due of
        None \<Rightarrow> Some ([RunPending], Inr ())
      | Some env \<Rightarrow>
          (case scheduled_stock_job cfg env of
             None \<Rightarrow> None
           | Some (tr, r) \<Rightarrow> Some (RunPending # tr, r)))"

text \<open>
  The polling loop (lines 25-27) over the polls given. The loop has no exit, so \<open>Inr ()\<close>
  says it is still running after the last poll given, and \<open>Inl e\<close> that \<open>e\<close> ended it.
\<close>

fun main_loop :: "config \<Rightarrow> run_env option list \<Rightarrow> unit result option" where
  "main_loop cfg [] = Some ([], Inr ())"
| "main_loop cfg (due # polls) =
     (case run_pending cfg due of
        None \<Rightarrow> None
      | Some (tr, Inl e) \<Rightarrow> Some (tr, Inl e)
      | Some (tr, Inr _) \<Rightarrow>
          (case main_loop cfg polls of
             None \<Rightarrow> None
           | Some (tr', r) \<Rightarrow> Some (tr @ [Sleep 60] @ tr', r)))"

section \<open>Describing runs\<close>

text \<open>
  The vocabulary of the statements below: what a page of the script is, read off the
  outcome of its request, and the requests a trace holds.
\<close>

fun page_dict :: "exn + response \<Rightarrow> (string \<times> json) list option" where
  "page_dict (Inl e) = None"
| "page_dict (Inr resp) = (case json_result resp of Inr (JObj d) \<Rightarrow> Some d | _ \<Rightarrow> None)"

definition is_ok_page :: "exn + response \<Rightarrow> bool" where
  "is_ok_page r = (case page_dict r of Some d \<Rightarrow> dict_get d ''status'' = JStr ''OK'' | None \<Rightarrow> False)"

definition page_results :: "exn + response \<Rightarrow> json list" where
  "page_results r =
     (case page_dict r of
        Some d \<Rightarrow> (case map_of d ''results'' of Some (JArr xs) \<Rightarrow> xs | _ \<Rightarrow> [])
      | None \<Rightarrow> [])"

definition has_results :: "exn + response \<Rightarrow> bool" where
  "has_results r =
     (case page_dict r of
        Some d \<Rightarrow> (case map_of d ''results'' of Some (JArr xs) \<Rightarrow> xs \<noteq> [] | _ \<Rightarrow> False)
      | None \<Rightarrow> False)"

definition empty_results :: "exn + response \<Rightarrow> bool" where
  "empty_results r =
     (case page_dict r of Some d \<Rightarrow> map_of d ''results'' = Some (JArr []) | None \<Rightarrow> False)"

definition no_results_key :: "exn + response \<Rightarrow> bool" where
  "no_results_key r =
     (case page_dict r of Some d \<Rightarrow> map_of d ''results'' = None | None \<Rightarrow> False)"

definition has_next_url :: "exn + response \<Rightarrow> bool" where
  "has_next_url r =
     (case page_dict r of
        Some d \<Rightarrow> (case map_of d ''next_url'' of Some (JStr u) \<Rightarrow> u \<noteq> [] | _ \<Rightarrow> False)
      | None \<Rightarrow> False)"

definition omits_next_url :: "exn + response \<Rightarrow> bool" where
  "omits_next_url r =
     (case page_dict r of Some d \<Rightarrow> map_of d ''next_url'' = None | None \<Rightarrow> False)"

text \<open>A page that continues the pagination, and one that ends it.\<close>

definition full_page :: "exn + response \<Rightarrow> bool" where
  "full_page r = (is_ok_page r \<and> has_results r \<and> has_next_url r)"

definition last_page :: "exn + response \<Rightarrow> bool" where
  "last_page r = (is_ok_page r \<and> (empty_results r \<or> has_results r \<and> omits_next_url r))"

text \<open>A page that aborts the pagination: a body that is not JSON, or a status other than OK.\<close>

fun aborting :: "exn + response \<Rightarrow> bool" where
  "aborting (Inl e) = False"
| "aborting (Inr resp) =
     (case json_result resp of
        Inl e \<Rightarrow> cls e = ValueError
      | Inr (JObj d) \<Rightarrow> dict_get d ''status'' \<noteq> JStr ''OK''
      | Inr _ \<Rightarrow> False)"

text \<open>The same response with an empty list stored under \<^verbatim>\<open>results\<close>.\<close>

fun with_empty_results :: "exn + response \<Rightarrow> exn + response" where
  "with_empty_results (Inl e) = Inl e"
| "with_empty_results (Inr resp) =
     (case json_result resp of
        Inr (JObj d) \<Rightarrow> Inr (resp\<lparr>json_result := Inr (JObj ((''results'', JArr []) # d))\<rparr>)
      | _ \<Rightarrow> Inr resp)"

definition http_gets :: "event list \<Rightarrow> json list" where
  "http_gets tr = concat (map (\<lambda>e. case e of HttpGet u \<Rightarrow> [u] | _ \<Rightarrow> []) tr)"

text \<open>
  The calendar date of a reading of \<^verbatim>\<open>datetime.now()\<close> as the wrapper prints it
  (\<^verbatim>\<open>YYYY-MM-DD HH:MM:SS.ffffff\<close>): its first ten characters, the form
  \<^verbatim>\<open>date.isoformat()\<close> gives.
\<close>

definition start_date :: "timestamp \<Rightarrow> string" where
  "start_date ts = take 10 ts"

definition is_driver_call :: "event \<Rightarrow> bool" where
  "is_driver_call e =
     (case e of
        SfConnect a b c d f g \<Rightarrow> True
      | SfCursor \<Rightarrow> True
      | SfExecute q \<Rightarrow> True
      | SfExecuteMany q rows \<Rightarrow> True
      | SfCommit \<Rightarrow> True
      | SfCursorClose \<Rightarrow> True
      | SfConnClose \<Rightarrow> True
      | _ \<Rightarrow> False)"

subsection \<open>Sample inputs\<close>

definition cfg0 :: config where
  "cfg0 = \<lparr>POLYGON_API_KEY = Some ''KEY'', SF_USER = Some ''u'', SF_PASSWORD = Some ''p'',
            SF_ACCOUNT = Some ''a'', SF_WAREHOUSE = Some ''w'', SF_DATABASE = Some ''d'',
            SF_SCHEMA = Some ''s'', SF_TABLE = ''stock_tickers''\<rparr>"

definition wh_ok :: warehouse where
  "wh_ok = \<lparr>connect_exn = None, cursor_exn = None, execute_exn = None,
             executemany_exn = None, commit_exn = None, cursor_close_exn = None,
             conn_close_exn = None\<rparr>"

definition db_error :: exn where
  "db_error = Exn (OtherException ''DatabaseError'') ''boom''"

definition page_of :: "(string \<times> json) list \<Rightarrow> exn + response" where
  "page_of d = Inr \<lparr>resp_text = ''{...}'', json_result = Inr (JObj d)\<rparr>"

definition ticker_a :: json where
  "ticker_a = JObj [(''ticker'', JStr ''A''), (''name'', JStr ''Agilent''), (''active'', JStr ''TRUE'')]"

definition ticker_b :: json where
  "ticker_b = JObj [(''ticker'', JStr ''B''), (''active'', JBool False), (''ds'', JStr ''1999-01-01'')]"

definition ticker_c :: json where
  "ticker_c = JObj [(''ticker'', JStr ''C''), (''market'', JStr ''false'')]"

definition page1 :: "exn + response" where
  "page1 = page_of [(''status'', JStr ''OK''), (''results'', JArr [ticker_a, ticker_b]),
                    (''next_url'', JStr ''https://api.polygon.io/v3/reference/tickers?cursor=X'')]"

definition page2 :: "exn + response" where
  "page2 = page_of [(''status'', JStr ''OK''), (''results'', JArr [ticker_c])]"

definition page_error :: "exn + response" where
  "page_error = page_of [(''status'', JStr ''ERROR''), (''error'', JStr ''rate limit'')]"

definition page_garbled :: "exn + response" where
  "page_garbled = Inr \<lparr>resp_text = ''<html>Bad Gateway</html>'',
                        json_result = Inl (Exn ValueError ''Expecting value'')\<rparr>"

definition page_no_results :: "exn + response" where
  "page_no_results = page_of [(''status'', JStr ''OK'')]"

definition ticker_true :: json where
  "ticker_true = JObj [(''ticker'', JStr ''TRUE''), (''name'', JStr ''TrueCar'')]"

text \<open>
  A run started ten seconds before midnight: the second page is requested after the
  pause of fifteen seconds, so the writer reads the date of the next day.
\<close>

definition env_midnight :: run_env where
  "env_midnight = \<lparr>env_script = [page1, page2], env_warehouse = wh_ok,
                    env_today = ''2026-11-05'', env_started = ''2026-11-04 23:59:50.000000'',
                    env_ended = ''2026-11-05 00:00:06.000000''\<rparr>"

definition env_failing :: run_env where
  "env_failing = \<lparr>env_script = [page2], env_warehouse = wh_ok\<lparr>connect_exn := Some db_error\<rparr>,
                   env_today = ''2026-11-04'', env_started = ''09:00:00'', env_ended = ''09:00:01''\<rparr>"

section \<open>The row loops\<close>

lemma build_row_ds:
  "build_row ds t cols = Inr row \<Longrightarrow>
   length row = length cols \<and> (\<forall>i < length cols. cols ! i = ''ds'' \<longrightarrow> row ! i = JStr ds)"
proof (induction cols arbitrary: row)
  case Nil
  then show ?case by simp
next
  case (Cons col cols)
  from Cons.prems obtain v row' where row: "row = v # row'"
    and rest: "build_row ds t cols = Inr row'" and v: "col = ''ds'' \<longrightarrow> v = JStr ds"
    by (auto split: if_splits sum.splits)
  from Cons.IH [OF rest] show ?case
    using row v by (auto simp: nth_Cons split: nat.splits)
qed

lemma build_rows_ds:
  "build_rows ds ts = Inr rows \<Longrightarrow>
   length rows = length ts \<and>
   (\<forall>row \<in> set rows. length row = length cols_order \<and>
      (\<forall>i < length cols_order. cols_order ! i = ''ds'' \<longrightarrow> row ! i = JStr ds))"
proof (induction ts arbitrary: rows)
  case Nil
  then show ?case by simp
next
  case (Cons t ts)
  from Cons.prems obtain row rows' where rows: "rows = row # rows'"
    and r: "build_row ds t cols_order = Inr row" and rest: "build_rows ds ts = Inr rows'"
    by (auto split: sum.splits)
  from Cons.IH [OF rest] build_row_ds [OF r] show ?case
    using rows by simp
qed

section \<open>The pagination loop\<close>

lemma fetch_pages_falsy:
  "\<not> truthy url \<Longrightarrow> fetch_pages cfg script url acc tr = Some (tr, Inr acc)"
  by (cases script) simp_all

lemma page_dict_SomeD:
  "page_dict r = Some d \<Longrightarrow> \<exists>resp. r = Inr resp \<and> json_result resp = Inr (JObj d)"
  by (cases r) (auto split: sum.splits json.splits)

lemma page_step_full:
  assumes "dict_get d ''status'' = JStr ''OK''" "map_of d ''results'' = Some (JArr xs)" "xs \<noteq> []"
    "map_of d ''next_url'' = Some (JStr u)" "u \<noteq> []"
  shows "page_step cfg (JObj d) acc =
           ([Sleep 15], Inr (Inr (JStr (u @ api_key_suffix cfg), acc @ xs)))"
  using assms by (simp add: page_step_def dict_get_def dict_get_default_def)

lemma fetch_pages_full:
  assumes "full_page r" "truthy url"
  shows "\<exists>u. u \<noteq> [] \<and> (\<forall>rest acc tr. fetch_pages cfg (r # rest) url acc tr =
           fetch_pages cfg rest (JStr (u @ api_key_suffix cfg)) (acc @ page_results r)
             (tr @ [PrintRequesting url, HttpGet url, Sleep 15]))"
proof -
  from assms(1) obtain d where d: "page_dict r = Some d"
    by (auto simp: full_page_def is_ok_page_def split: option.splits)
  then obtain resp where r: "r = Inr resp" "json_result resp = Inr (JObj d)"
    using page_dict_SomeD by blast
  from assms(1) d have st: "dict_get d ''status'' = JStr ''OK''"
    by (simp add: full_page_def is_ok_page_def)
  from assms(1) d obtain xs where xs: "map_of d ''results'' = Some (JArr xs)" "xs \<noteq> []"
    by (auto simp: full_page_def has_results_def split: option.splits json.splits)
  from assms(1) d obtain u where u: "map_of d ''next_url'' = Some (JStr u)" "u \<noteq> []"
    by (auto simp: full_page_def has_next_url_def split: option.splits json.splits)
  have pr: "page_results r = xs"
    using d xs by (simp add: page_results_def)
  show ?thesis
    using assms(2) r u(2) pr page_step_full [OF st xs u]
    by (intro exI [of _ u]) simp
qed


lemma first_url_truthy: "truthy (JStr (first_url cfg))"
  by (simp add: first_url_def)

lemma http_gets_append: "http_gets (xs @ ys) = http_gets xs @ http_gets ys"
  by (simp add: http_gets_def)

lemma fetch_pages_full_run:
  "\<forall>r \<in> set pages. full_page r \<Longrightarrow> truthy url \<Longrightarrow>
   \<exists>url' tr'. truthy url' \<and> length (http_gets tr') = length pages \<and>
     (\<forall>rest acc tr. fetch_pages cfg (pages @ rest) url acc tr =
        fetch_pages cfg rest url' (acc @ concat (map page_results pages)) (tr @ tr'))"
proof (induction pages arbitrary: url)
  case Nil
  then show ?case
    by (intro exI [of _ url] exI [of _ "[]"]) (simp add: http_gets_def)
next
  case (Cons r pages)
  from Cons.prems have "full_page r" by simp
  with Cons.prems(2) obtain u where u: "u \<noteq> []"
    and step: "\<And>rest acc tr. fetch_pages cfg (r # rest) url acc tr =
           fetch_pages cfg rest (JStr (u @ api_key_suffix cfg)) (acc @ page_results r)
             (tr @ [PrintRequesting url, HttpGet url, Sleep 15])"
    using fetch_pages_full [of r url cfg] by blast
  have "truthy (JStr (u @ api_key_suffix cfg))" using u by simp
  with Cons.IH [of "JStr (u @ api_key_suffix cfg)"] Cons.prems(1)
  obtain url' tr' where t: "truthy url'" and n: "length (http_gets tr') = length pages"
    and run: "\<And>rest acc tr. fetch_pages cfg (pages @ rest) (JStr (u @ api_key_suffix cfg)) acc tr =
        fetch_pages cfg rest url' (acc @ concat (map page_results pages)) (tr @ tr')"
    by auto
  show ?case
  proof (intro exI [of _ url'] exI [of _ "[PrintRequesting url, HttpGet url, Sleep 15] @ tr'"]
      conjI allI)
    show "truthy url'" by (rule t)
    show "length (http_gets ([PrintRequesting url, HttpGet url, Sleep 15] @ tr')) =
        length (r # pages)"
      using n by (simp add: http_gets_def)
    fix rest acc tr
    show "fetch_pages cfg ((r # pages) @ rest) url acc tr =
        fetch_pages cfg rest url' (acc @ concat (map page_results (r # pages)))
          (tr @ [PrintRequesting url, HttpGet url, Sleep 15] @ tr')"
      using step [of "pages @ rest" acc tr] run by simp
  qed
qed

lemma fetch_pages_last:
  assumes "last_page r" "truthy url"
  shows "fetch_pages cfg (r # rest) url acc tr =
           Some (tr @ [PrintRequesting url, HttpGet url] @
                   (if empty_results r then [PrintNoResults] else []),
                 Inr (acc @ page_results r))"
proof -
  from assms(1) obtain d where d: "page_dict r = Some d"
    by (auto simp: last_page_def is_ok_page_def split: option.splits)
  then obtain resp where r: "r = Inr resp" "json_result resp = Inr (JObj d)"
    using page_dict_SomeD by blast
  from assms(1) d have st: "dict_get d ''status'' = JStr ''OK''"
    by (simp add: last_page_def is_ok_page_def)
  from assms(1) d consider
    (empty) "map_of d ''results'' = Some (JArr [])"
    | (final) xs where "map_of d ''results'' = Some (JArr xs)" "xs \<noteq> []"
        "map_of d ''next_url'' = None"
    by (auto simp: last_page_def empty_results_def has_results_def omits_next_url_def
        split: option.splits json.splits)
  then show ?thesis
  proof cases
    case empty
    then have "page_step cfg (JObj d) acc = ([PrintNoResults], Inr (Inl acc))"
      using st by (simp add: page_step_def dict_get_default_def)
    then show ?thesis
      using assms(2) r d empty by (simp add: empty_results_def page_results_def)
  next
    case final
    then have "page_step cfg (JObj d) acc = ([], Inr (Inr (JNull, acc @ xs)))"
      using st by (simp add: page_step_def dict_get_def dict_get_default_def)
    then show ?thesis
      using assms(2) r d final
      by (simp add: empty_results_def page_results_def fetch_pages_falsy)
  qed
qed

text \<open>
  C1. Started as the job starts it, the loop has not stopped after any number of pages
  that each decode to status OK with a non-empty result list and a next-page URL: it asks
  for a further page. When the next page is a last page (an empty result list, or results
  and no next-page URL) the loop stops there, after exactly one request per page, with
  the records of every page in order; what the script holds after that page is not
  requested.
\<close>

theorem pagination_follows_every_full_page:
  assumes "\<forall>r \<in> set pages. full_page r"
  shows "fetch_pages cfg pages (JStr (first_url cfg)) [] [] = None \<and>
    (last_page final \<longrightarrow>
       (\<exists>tr. fetch_pages cfg (pages @ final # rest) (JStr (first_url cfg)) [] [] =
                Some (tr, Inr (concat (map page_results pages) @ page_results final)) \<and>
             length (http_gets tr) = length pages + 1))"
proof -
  from fetch_pages_full_run [OF assms first_url_truthy, of cfg cfg]
  obtain url' tr' where t: "truthy url'" and n: "length (http_gets tr') = length pages"
    and run: "\<And>rest acc tr. fetch_pages cfg (pages @ rest) (JStr (first_url cfg)) acc tr =
        fetch_pages cfg rest url' (acc @ concat (map page_results pages)) (tr @ tr')"
    by blast
  have "fetch_pages cfg pages (JStr (first_url cfg)) [] [] = None"
    using run [of "[]" "[]" "[]"] t by simp
  moreover have "last_page final \<longrightarrow>
       (\<exists>tr. fetch_pages cfg (pages @ final # rest) (JStr (first_url cfg)) [] [] =
                Some (tr, Inr (concat (map page_results pages) @ page_results final)) \<and>
             length (http_gets tr) = length pages + 1)"
  proof
    assume "last_page final"
    from fetch_pages_last [OF this t, of cfg rest "concat (map page_results pages)" tr']
      run [of "final # rest" "[]" "[]"] n
    show "\<exists>tr. fetch_pages cfg (pages @ final # rest) (JStr (first_url cfg)) [] [] =
                Some (tr, Inr (concat (map page_results pages) @ page_results final)) \<and>
             length (http_gets tr) = length pages + 1"
      by (simp add: http_gets_append) (simp add: http_gets_def)
  qed
  ultimately show ?thesis by blast
qed

lemma full_page_page1: "full_page page1"
  by (simp add: full_page_def is_ok_page_def has_results_def has_next_url_def page1_def
      page_of_def dict_get_def dict_get_default_def)

lemma last_page_page2: "last_page page2"
  by (simp add: last_page_def is_ok_page_def has_results_def omits_next_url_def page2_def
      page_of_def dict_get_def dict_get_default_def)

lemma page_results_page1: "page_results page1 = [ticker_a, ticker_b]"
  by (simp add: page_results_def page1_def page_of_def)

lemma page_results_page2: "page_results page2 = [ticker_c]"
  by (simp add: page_results_def page2_def page_of_def)

theorem pagination_witness:
  "fetch_pages cfg0 [page1] (JStr (first_url cfg0)) [] [] = None \<and>
   (\<exists>tr. fetch_pages cfg0 [page1, page2, page_error] (JStr (first_url cfg0)) [] [] =
            Some (tr, Inr [ticker_a, ticker_b, ticker_c]) \<and>
          length (http_gets tr) = 2)"
  using pagination_follows_every_full_page [of "[page1]" cfg0 page2 "[page_error]"]
  by (auto simp add: full_page_page1 last_page_page2 page_results_page1 page_results_page2
      numeral_2_eq_2 simp del: fetch_pages.simps)

subsection \<open>Aborted pagination\<close>

lemma fetch_pages_aborting:
  assumes "aborting r" "truthy url"
  shows "\<exists>evs. fetch_pages cfg (r # rest) url acc tr =
           Some (tr @ [PrintRequesting url, HttpGet url] @ evs, Inr acc)"
proof (cases r)
  case (Inl e)
  with assms show ?thesis by simp
next
  case (Inr resp)
  show ?thesis
  proof (cases "json_result resp")
    case (Inl e)
    with assms Inr show ?thesis by simp
  next
    case data: (Inr data)
    with assms(1) Inr obtain d where d: "data = JObj d" "dict_get d ''status'' \<noteq> JStr ''OK''"
      by (cases data) auto
    then have "page_step cfg data acc = ([PrintPolygonError (dict_get d ''error'')], Inr (Inl acc))"
      by (simp add: page_step_def)
    with assms(2) Inr data show ?thesis by simp
  qed
qed

lemma write_nonempty_connects:
  "tickers \<noteq> [] \<Longrightarrow>
   \<exists>tr res. write_to_snowflake cfg wh today tickers =
     (SfConnect (SF_USER cfg) (SF_PASSWORD cfg) (SF_ACCOUNT cfg)
        (SF_WAREHOUSE cfg) (SF_DATABASE cfg) (SF_SCHEMA cfg) # tr, res)"
  by (auto simp: write_to_snowflake_def write_body_def insert_rows_def close_all_def Let_def
      split: option.splits sum.splits prod.splits)

lemma full_page_results_nonempty: "full_page r \<Longrightarrow> page_results r \<noteq> []"
  by (auto simp: full_page_def has_results_def page_results_def split: option.splits json.splits)

lemma write_to_snowflake_success:
  assumes "tickers \<noteq> []" and "build_rows today tickers = Inr rows"
    and "connect_exn wh = None" and "cursor_exn wh = None" and "execute_exn wh = None"
    and "executemany_exn wh = None" and "commit_exn wh = None"
    and "cursor_close_exn wh = None" and "conn_close_exn wh = None"
  shows "write_to_snowflake cfg wh today tickers =
           ([SfConnect (SF_USER cfg) (SF_PASSWORD cfg) (SF_ACCOUNT cfg)
               (SF_WAREHOUSE cfg) (SF_DATABASE cfg) (SF_SCHEMA cfg),
             SfCursor, PrintConnected, SfExecute (create_table_sql cfg),
             PrintTableVerified (SF_TABLE cfg), SfExecuteMany (insert_sql cfg) rows, SfCommit,
             PrintInserted (length rows) (SF_TABLE cfg),
             SfCursorClose, SfConnClose, PrintClosed], Inr ())"
proof -
  have "rows \<noteq> []"
    using assms(1,2) build_rows_ds [of today tickers rows] by auto
  then show ?thesis
    using assms
    by (simp add: write_to_snowflake_def write_body_def insert_rows_def close_all_def)
qed

text \<open>
  C2. When the pages fetched so far were full pages (so records have been accumulated)
  and the next response aborts the pagination (its body is not JSON, or its status is
  not OK), the loop ends normally with the records of those pages, and the job calls the
  writer with exactly that list. The list being non-empty, the writer goes to the
  warehouse, and when the records map to rows and no call of the driver fails, the run
  inserts one row per accumulated record in one batch, commits it and reports the count:
  the partial batch is written.
\<close>

theorem partial_batch_is_written:
  assumes "\<forall>r \<in> set pages. full_page r" and "pages \<noteq> []" and "aborting bad"
  shows "\<exists>tr. fetch_pages cfg (pages @ bad # rest) (JStr (first_url cfg)) [] [] =
                Some (tr, Inr (concat (map page_results pages))) \<and>
              concat (map page_results pages) \<noteq> [] \<and>
              run_stock_job cfg (pages @ bad # rest) wh today =
                (case write_to_snowflake cfg wh today (concat (map page_results pages)) of
                   (tr', Inl e) \<Rightarrow> Some (tr @ tr', Inl e)
                 | (tr', Inr u) \<Rightarrow>
                     Some (tr @ tr' @ [PrintWrote (length (concat (map page_results pages)))
                                         (SF_TABLE cfg)], Inr ())) \<and>
              (\<exists>tr' res. write_to_snowflake cfg wh today (concat (map page_results pages)) =
                 (SfConnect (SF_USER cfg) (SF_PASSWORD cfg) (SF_ACCOUNT cfg)
                    (SF_WAREHOUSE cfg) (SF_DATABASE cfg) (SF_SCHEMA cfg) # tr', res)) \<and>
              (\<forall>rows. build_rows today (concat (map page_results pages)) = Inr rows \<and>
                  connect_exn wh = None \<and> cursor_exn wh = None \<and> execute_exn wh = None \<and>
                  executemany_exn wh = None \<and> commit_exn wh = None \<and>
                  cursor_close_exn wh = None \<and> conn_close_exn wh = None \<longrightarrow>
                 length rows = length (concat (map page_results pages)) \<and>
                 run_stock_job cfg (pages @ bad # rest) wh today =
                   Some (tr @
                         [SfConnect (SF_USER cfg) (SF_PASSWORD cfg) (SF_ACCOUNT cfg)
                            (SF_WAREHOUSE cfg) (SF_DATABASE cfg) (SF_SCHEMA cfg),
                          SfCursor, PrintConnected, SfExecute (create_table_sql cfg),
                          PrintTableVerified (SF_TABLE cfg),
                          SfExecuteMany (insert_sql cfg) rows, SfCommit,
                          PrintInserted (length rows) (SF_TABLE cfg),
                          SfCursorClose, SfConnClose, PrintClosed,
                          PrintWrote (length (concat (map page_results pages))) (SF_TABLE cfg)],
                         Inr ()))"
proof -
  let ?acc = "concat (map page_results pages)"
  from fetch_pages_full_run [OF assms(1) first_url_truthy, of cfg cfg]
  obtain url' tr' where t: "truthy url'"
    and run: "\<And>rest acc tr. fetch_pages cfg (pages @ rest) (JStr (first_url cfg)) acc tr =
        fetch_pages cfg rest url' (acc @ concat (map page_results pages)) (tr @ tr')"
    by blast
  from fetch_pages_aborting [OF assms(3) t, of cfg rest ?acc tr']
  obtain evs where evs: "fetch_pages cfg (bad # rest) url' ?acc tr' =
      Some (tr' @ [PrintRequesting url', HttpGet url'] @ evs, Inr ?acc)"
    by blast
  let ?tr = "tr' @ [PrintRequesting url', HttpGet url'] @ evs"
  have f: "fetch_pages cfg (pages @ bad # rest) (JStr (first_url cfg)) [] [] = Some (?tr, Inr ?acc)"
    using run [of "bad # rest" "[]" "[]"] evs by simp
  from assms(1,2) have ne: "?acc \<noteq> []"
    by (cases pages) (auto dest: full_page_results_nonempty)
  have job: "run_stock_job cfg (pages @ bad # rest) wh today =
        (case write_to_snowflake cfg wh today ?acc of
           (tr', Inl e) \<Rightarrow> Some (?tr @ tr', Inl e)
         | (tr', Inr u) \<Rightarrow> Some (?tr @ tr' @ [PrintWrote (length ?acc) (SF_TABLE cfg)], Inr ()))"
    using f by (auto simp: run_stock_job_def split: prod.splits sum.splits)
  have conn: "\<exists>tr' res. write_to_snowflake cfg wh today ?acc =
                 (SfConnect (SF_USER cfg) (SF_PASSWORD cfg) (SF_ACCOUNT cfg)
                    (SF_WAREHOUSE cfg) (SF_DATABASE cfg) (SF_SCHEMA cfg) # tr', res)"
    by (rule write_nonempty_connects [OF ne])
  have ins: "length rows = length ?acc \<and>
       run_stock_job cfg (pages @ bad # rest) wh today =
         Some (?tr @
               [SfConnect (SF_USER cfg) (SF_PASSWORD cfg) (SF_ACCOUNT cfg)
                  (SF_WAREHOUSE cfg) (SF_DATABASE cfg) (SF_SCHEMA cfg),
                SfCursor, PrintConnected, SfExecute (create_table_sql cfg),
                PrintTableVerified (SF_TABLE cfg),
                SfExecuteMany (insert_sql cfg) rows, SfCommit,
                PrintInserted (length rows) (SF_TABLE cfg),
                SfCursorClose, SfConnClose, PrintClosed,
                PrintWrote (length ?acc) (SF_TABLE cfg)],
               Inr ())"
    if "build_rows today ?acc = Inr rows \<and>
        connect_exn wh = None \<and> cursor_exn wh = None \<and> execute_exn wh = None \<and>
        executemany_exn wh = None \<and> commit_exn wh = None \<and>
        cursor_close_exn wh = None \<and> conn_close_exn wh = None" for rows
  proof -
    from that have b: "build_rows today ?acc = Inr rows" by simp
    have "length rows = length ?acc"
      using build_rows_ds [OF b] by simp
    moreover from that have "write_to_snowflake cfg wh today ?acc =
           ([SfConnect (SF_USER cfg) (SF_PASSWORD cfg) (SF_ACCOUNT cfg)
               (SF_WAREHOUSE cfg) (SF_DATABASE cfg) (SF_SCHEMA cfg),
             SfCursor, PrintConnected, SfExecute (create_table_sql cfg),
             PrintTableVerified (SF_TABLE cfg), SfExecuteMany (insert_sql cfg) rows, SfCommit,
             PrintInserted (length rows) (SF_TABLE cfg),
             SfCursorClose, SfConnClose, PrintClosed], Inr ())"
      by (intro write_to_snowflake_success [OF ne b]) simp_all
    ultimately show ?thesis
      using job by simp
  qed
  show ?thesis
    using f ne job conn ins by (intro exI [of _ ?tr]) blast
qed

lemma aborting_page_error: "aborting page_error"
  by (simp add: page_error_def page_of_def dict_get_def dict_get_default_def)

lemma aborting_page_garbled: "aborting page_garbled"
  by (simp add: page_garbled_def)

lemma build_rows_tickers_ab:
  "build_rows ''2026-11-04'' [ticker_a, ticker_b] =
     Inr [[JStr ''A'', JStr ''Agilent'', JNull, JNull, JNull, JNull, JBool True,
           JNull, JNull, JNull, JNull, JNull, JStr ''2026-11-04''],
          [JStr ''B'', JNull, JNull, JNull, JNull, JNull, JBool False,
           JNull, JNull, JNull, JNull, JNull, JStr ''2026-11-04'']]"
  by code_simp

theorem partial_batch_witness:
  "(\<exists>tr. fetch_pages cfg0 [page1, page_error] (JStr (first_url cfg0)) [] [] =
           Some (tr, Inr [ticker_a, ticker_b]) \<and>
         run_stock_job cfg0 [page1, page_error] wh_ok ''2026-11-04'' =
           Some (tr @
                 [SfConnect (Some ''u'') (Some ''p'') (Some ''a'') (Some ''w'') (Some ''d'')
                    (Some ''s''),
                  SfCursor, PrintConnected, SfExecute (create_table_sql cfg0),
                  PrintTableVerified ''stock_tickers'',
                  SfExecuteMany (insert_sql cfg0)
                    [[JStr ''A'', JStr ''Agilent'', JNull, JNull, JNull, JNull, JBool True,
                      JNull, JNull, JNull, JNull, JNull, JStr ''2026-11-04''],
                     [JStr ''B'', JNull, JNull, JNull, JNull, JNull, JBool False,
                      JNull, JNull, JNull, JNull, JNull, JStr ''2026-11-04'']],
                  SfCommit, PrintInserted 2 ''stock_tickers'',
                  SfCursorClose, SfConnClose, PrintClosed,
                  PrintWrote 2 ''stock_tickers''], Inr ())) \<and>
   (\<exists>tr. fetch_pages cfg0 [page1, page_garbled] (JStr (first_url cfg0)) [] [] =
           Some (tr, Inr [ticker_a, ticker_b]) \<and>
         run_stock_job cfg0 [page1, page_garbled] wh_ok ''2026-11-04'' =
           Some (tr @
                 [SfConnect (Some ''u'') (Some ''p'') (Some ''a'') (Some ''w'') (Some ''d'')
                    (Some ''s''),
                  SfCursor, PrintConnected, SfExecute (create_table_sql cfg0),
                  PrintTableVerified ''stock_tickers'',
                  SfExecuteMany (insert_sql cfg0)
                    [[JStr ''A'', JStr ''Agilent'', JNull, JNull, JNull, JNull, JBool True,
                      JNull, JNull, JNull, JNull, JNull, JStr ''2026-11-04''],
                     [JStr ''B'', JNull, JNull, JNull, JNull, JNull, JBool False,
                      JNull, JNull, JNull, JNull, JNull, JStr ''2026-11-04'']],
                  SfCommit, PrintInserted 2 ''stock_tickers'',
                  SfCursorClose, SfConnClose, PrintClosed,
                  PrintWrote 2 ''stock_tickers''], Inr ()))"
proof -
  let ?rows = "[[JStr ''A'', JStr ''Agilent'', JNull, JNull, JNull, JNull, JBool True,
                 JNull, JNull, JNull, JNull, JNull, JStr ''2026-11-04''],
                [JStr ''B'', JNull, JNull, JNull, JNull, JNull, JBool False,
                 JNull, JNull, JNull, JNull, JNull, JStr ''2026-11-04'']]"
  have full: "\<forall>r \<in> set [page1]. full_page r" by (simp add: full_page_page1)
  have ne: "[page1] \<noteq> []" by simp
  have ok: "build_rows ''2026-11-04'' (concat (map page_results [page1])) = Inr ?rows \<and>
      connect_exn wh_ok = None \<and> cursor_exn wh_ok = None \<and> execute_exn wh_ok = None \<and>
      executemany_exn wh_ok = None \<and> commit_exn wh_ok = None \<and>
      cursor_close_exn wh_ok = None \<and> conn_close_exn wh_ok = None"
    using build_rows_tickers_ab by (simp add: page_results_page1 wh_ok_def)
  have cfg: "SF_USER cfg0 = Some ''u''" "SF_PASSWORD cfg0 = Some ''p''"
    "SF_ACCOUNT cfg0 = Some ''a''" "SF_WAREHOUSE cfg0 = Some ''w''"
    "SF_DATABASE cfg0 = Some ''d''" "SF_SCHEMA cfg0 = Some ''s''"
    "SF_TABLE cfg0 = ''stock_tickers''"
    by (simp_all add: cfg0_def)
  have one: "\<exists>tr. fetch_pages cfg0 [page1, bad] (JStr (first_url cfg0)) [] [] =
           Some (tr, Inr [ticker_a, ticker_b]) \<and>
         run_stock_job cfg0 [page1, bad] wh_ok ''2026-11-04'' =
           Some (tr @
                 [SfConnect (Some ''u'') (Some ''p'') (Some ''a'') (Some ''w'') (Some ''d'')
                    (Some ''s''),
                  SfCursor, PrintConnected, SfExecute (create_table_sql cfg0),
                  PrintTableVerified ''stock_tickers'',
                  SfExecuteMany (insert_sql cfg0) ?rows,
                  SfCommit, PrintInserted 2 ''stock_tickers'',
                  SfCursorClose, SfConnClose, PrintClosed,
                  PrintWrote 2 ''stock_tickers''], Inr ())"
    if bad: "aborting bad" for bad
  proof -
    from partial_batch_is_written [OF full ne bad, of cfg0 "[]" wh_ok "''2026-11-04''"]
    obtain tr where f: "fetch_pages cfg0 ([page1] @ [bad]) (JStr (first_url cfg0)) [] [] =
          Some (tr, Inr (concat (map page_results [page1])))"
      and w: "\<forall>rows. build_rows ''2026-11-04'' (concat (map page_results [page1])) = Inr rows \<and>
                  connect_exn wh_ok = None \<and> cursor_exn wh_ok = None \<and>
                  execute_exn wh_ok = None \<and> executemany_exn wh_ok = None \<and>
                  commit_exn wh_ok = None \<and> cursor_close_exn wh_ok = None \<and>
                  conn_close_exn wh_ok = None \<longrightarrow>
                 length rows = length (concat (map page_results [page1])) \<and>
                 run_stock_job cfg0 ([page1] @ [bad]) wh_ok ''2026-11-04'' =
                   Some (tr @
                         [SfConnect (SF_USER cfg0) (SF_PASSWORD cfg0) (SF_ACCOUNT cfg0)
                            (SF_WAREHOUSE cfg0) (SF_DATABASE cfg0) (SF_SCHEMA cfg0),
                          SfCursor, PrintConnected, SfExecute (create_table_sql cfg0),
                          PrintTableVerified (SF_TABLE cfg0),
                          SfExecuteMany (insert_sql cfg0) rows, SfCommit,
                          PrintInserted (length rows) (SF_TABLE cfg0),
                          SfCursorClose, SfConnClose, PrintClosed,
                          PrintWrote (length (concat (map page_results [page1]))) (SF_TABLE cfg0)],
                         Inr ())"
      by blast
    from w ok have "run_stock_job cfg0 ([page1] @ [bad]) wh_ok ''2026-11-04'' =
                   Some (tr @
                         [SfConnect (SF_USER cfg0) (SF_PASSWORD cfg0) (SF_ACCOUNT cfg0)
                            (SF_WAREHOUSE cfg0) (SF_DATABASE cfg0) (SF_SCHEMA cfg0),
                          SfCursor, PrintConnected, SfExecute (create_table_sql cfg0),
                          PrintTableVerified (SF_TABLE cfg0),
                          SfExecuteMany (insert_sql cfg0) ?rows, SfCommit,
                          PrintInserted (length ?rows) (SF_TABLE cfg0),
                          SfCursorClose, SfConnClose, PrintClosed,
                          PrintWrote (length (concat (map page_results [page1]))) (SF_TABLE cfg0)],
                         Inr ())"
      by blast
    with f show ?thesis
      by (intro exI [of _ tr])
         (simp add: cfg page_results_page1 del: fetch_pages.simps)
  qed
  from one [OF aborting_page_error] one [OF aborting_page_garbled] show ?thesis
    by blast
qed

subsection \<open>A page without a result list\<close>

lemma page_step_no_results_key:
  assumes "map_of d ''results'' = None"
  shows "page_step cfg (JObj ((''results'', JArr []) # d)) acc = page_step cfg (JObj d) acc"
  using assms by (simp add: page_step_def dict_get_def dict_get_default_def)

lemma fetch_pages_with_empty_results_hd:
  assumes "no_results_key r"
  shows "fetch_pages cfg (with_empty_results r # rest) url acc tr =
         fetch_pages cfg (r # rest) url acc tr"
proof -
  from assms obtain d where d: "page_dict r = Some d" "map_of d ''results'' = None"
    by (auto simp: no_results_key_def split: option.splits)
  then obtain resp where r: "r = Inr resp" "json_result resp = Inr (JObj d)"
    using page_dict_SomeD by blast
  show ?thesis
    using r d(2) by (simp add: page_step_no_results_key)
qed

lemma fetch_pages_with_empty_results:
  assumes "no_results_key r"
  shows "fetch_pages cfg (pre @ with_empty_results r # rest) url acc tr =
         fetch_pages cfg (pre @ r # rest) url acc tr"
proof (induction pre arbitrary: url acc tr)
  case Nil
  show ?case using fetch_pages_with_empty_results_hd [OF assms] by simp
next
  case (Cons p pre)
  show ?case
    by (simp add: Cons.IH Let_def split: sum.splits prod.splits)
qed

lemma fetch_pages_no_results_key:
  assumes "is_ok_page r" "no_results_key r" "truthy url"
  shows "fetch_pages cfg (r # rest) url acc tr =
           Some (tr @ [PrintRequesting url, HttpGet url, PrintNoResults], Inr acc)"
proof -
  from assms obtain d where d: "page_dict r = Some d" "map_of d ''results'' = None"
    by (auto simp: no_results_key_def split: option.splits)
  then obtain resp where r: "r = Inr resp" "json_result resp = Inr (JObj d)"
    using page_dict_SomeD by blast
  from assms(1) d have "dict_get d ''status'' = JStr ''OK''"
    by (simp add: is_ok_page_def)
  then have "page_step cfg (JObj d) acc = ([PrintNoResults], Inr (Inl acc))"
    using d(2) by (simp add: page_step_def dict_get_default_def)
  then show ?thesis using r assms(3) by simp
qed

text \<open>
  C10. A page with status OK and no \<^verbatim>\<open>results\<close> key is treated as the same page
  with an empty result list: wherever it stands in the script the job runs the same.
  After full pages it ends the pagination as a natural end (the notice of an empty page,
  no exception), and the records of the earlier pages are passed to the writer.
\<close>

theorem missing_results_key_is_natural_end:
  assumes "is_ok_page r" and "no_results_key r"
  shows "run_stock_job cfg (pre @ r # rest) wh today =
           run_stock_job cfg (pre @ with_empty_results r # rest) wh today \<and>
         ((\<forall>p \<in> set pre. full_page p) \<longrightarrow>
            (\<exists>tr. fetch_pages cfg (pre @ r # rest) (JStr (first_url cfg)) [] [] =
                     Some (tr @ [PrintNoResults], Inr (concat (map page_results pre))) \<and>
                   run_stock_job cfg (pre @ r # rest) wh today =
                     (case write_to_snowflake cfg wh today (concat (map page_results pre)) of
                        (tr', Inl e) \<Rightarrow> Some (tr @ [PrintNoResults] @ tr', Inl e)
                      | (tr', Inr u) \<Rightarrow>
                          Some (tr @ [PrintNoResults] @ tr' @
                                [PrintWrote (length (concat (map page_results pre)))
                                   (SF_TABLE cfg)], Inr ()))))"
proof -
  have eq: "run_stock_job cfg (pre @ r # rest) wh today =
           run_stock_job cfg (pre @ with_empty_results r # rest) wh today"
    by (simp add: run_stock_job_def fetch_pages_with_empty_results [OF assms(2)])
  have "(\<exists>tr. fetch_pages cfg (pre @ r # rest) (JStr (first_url cfg)) [] [] =
                     Some (tr @ [PrintNoResults], Inr (concat (map page_results pre))) \<and>
                   run_stock_job cfg (pre @ r # rest) wh today =
                     (case write_to_snowflake cfg wh today (concat (map page_results pre)) of
                        (tr', Inl e) \<Rightarrow> Some (tr @ [PrintNoResults] @ tr', Inl e)
                      | (tr', Inr u) \<Rightarrow>
                          Some (tr @ [PrintNoResults] @ tr' @
                                [PrintWrote (length (concat (map page_results pre)))
                                   (SF_TABLE cfg)], Inr ())))"
    if full: "\<forall>p \<in> set pre. full_page p"
  proof -
    from fetch_pages_full_run [OF full first_url_truthy, of cfg cfg]
    obtain url' tr' where t: "truthy url'"
      and run: "\<And>rest acc tr. fetch_pages cfg (pre @ rest) (JStr (first_url cfg)) acc tr =
          fetch_pages cfg rest url' (acc @ concat (map page_results pre)) (tr @ tr')"
      by blast
    have f: "fetch_pages cfg (pre @ r # rest) (JStr (first_url cfg)) [] [] =
        Some ((tr' @ [PrintRequesting url', HttpGet url']) @ [PrintNoResults],
              Inr (concat (map page_results pre)))"
      using run [of "r # rest" "[]" "[]"] fetch_pages_no_results_key [OF assms t] by simp
    show ?thesis
      using f
      by (intro exI [of _ "tr' @ [PrintRequesting url', HttpGet url']"])
         (auto simp: run_stock_job_def split: prod.splits sum.splits)
  qed
  with eq show ?thesis by blast
qed

lemma page_no_results_ok: "is_ok_page page_no_results \<and> no_results_key page_no_results"
  by (simp add: is_ok_page_def no_results_key_def page_no_results_def page_of_def
      dict_get_def dict_get_default_def)

theorem missing_results_key_witness:
  "run_stock_job cfg0 [page1, page_no_results] wh_ok ''2026-11-04'' =
     run_stock_job cfg0 [page1, with_empty_results page_no_results] wh_ok ''2026-11-04'' \<and>
   (\<exists>tr. fetch_pages cfg0 [page1, page_no_results] (JStr (first_url cfg0)) [] [] =
            Some (tr @ [PrintNoResults], Inr [ticker_a, ticker_b]))"
  using missing_results_key_is_natural_end
    [of page_no_results cfg0 "[page1]" "[]" wh_ok "''2026-11-04''"]
  by (auto simp add: page_no_results_ok full_page_page1 page_results_page1
      simp del: fetch_pages.simps with_empty_results.simps)

section \<open>The writer\<close>

text \<open>
  C3. Called with an empty batch, the writer prints its notice and returns: the trace
  holds no call of the warehouse driver (no connection, no statement), and the call ends
  normally.
\<close>

theorem write_to_snowflake_empty:
  "write_to_snowflake cfg wh today [] = ([PrintNoTickers], Inr ())"
  by (simp add: write_to_snowflake_def)

section \<open>The schema mapper\<close>

lemma cols_order_eq:
  "cols_order = [''ticker'', ''name'', ''market'', ''locale'', ''primary_exchange'', ''type'',
     ''active'', ''currency_name'', ''cik'', ''composite_figi'', ''share_class_figi'',
     ''last_updated_utc'', ''ds'']"
  by (simp add: cols_order_def TARGET_SCHEMA_def)

lemma build_row_dict:
  "build_row ds (JObj d) cols =
     Inr (map (\<lambda>col. if col = ''ds'' then JStr ds else coerce (dict_get d col)) cols)"
  by (induction cols) simp_all

lemma build_rows_dicts:
  "build_rows ds (map JObj recs) =
     Inr (map (\<lambda>d. map (\<lambda>col. if col = ''ds'' then JStr ds else coerce (dict_get d col))
                      cols_order) recs)"
  by (induction recs) (simp_all add: build_row_dict)

lemma coerce_cases:
  "(lower s = ''true'' \<longrightarrow> coerce (JStr s) = JBool True) \<and>
   (lower s = ''false'' \<longrightarrow> coerce (JStr s) = JBool False) \<and>
   (lower s \<noteq> ''true'' \<and> lower s \<noteq> ''false'' \<longrightarrow> coerce (JStr s) = JStr s)"
  by auto

lemma coerce_not_str: "(\<forall>u. v \<noteq> JStr u) \<Longrightarrow> coerce v = v"
  by (cases v) auto

text \<open>
  C5. In the row of a record, at every column other than the load date: when the
  record's field is a text that reads true or false in any letter case the row holds
  the boolean; when it is anything else (a boolean, another type, another text, or
  absent) the row holds the field's value unchanged.
\<close>

theorem boolean_text_is_coerced:
  assumes "build_row today (JObj d) cols_order = Inr row"
    and "i < length cols_order" and "cols_order ! i \<noteq> ''ds''"
  shows "(\<forall>s. dict_get d (cols_order ! i) = JStr s \<and> lower s = ''true'' \<longrightarrow>
            row ! i = JBool True) \<and>
         (\<forall>s. dict_get d (cols_order ! i) = JStr s \<and> lower s = ''false'' \<longrightarrow>
            row ! i = JBool False) \<and>
         ((\<forall>s. dict_get d (cols_order ! i) = JStr s \<longrightarrow>
             lower s \<noteq> ''true'' \<and> lower s \<noteq> ''false'') \<longrightarrow>
            row ! i = dict_get d (cols_order ! i))"
proof -
  have row: "row ! i = coerce (dict_get d (cols_order ! i))"
    using assms by (auto simp: build_row_dict)
  show ?thesis
    unfolding row
    by (cases "dict_get d (cols_order ! i)") auto
qed

text \<open>
  C6 (as amended). The mapper succeeds on every list of records without validating
  anything, and gives one row per record, in order; each row has one entry per column
  of the target schema, in the schema's order. At a column other than the load date the
  row holds the record's field of that name, unchanged, unless that field is a text
  reading true or false in any letter case, which the row holds as the boolean; a field
  the record does not have gives null, and nothing is substituted.
\<close>

theorem mapper_rows_follow_schema:
  "\<exists>rows. build_rows today (map JObj recs) = Inr rows \<and> length rows = length recs \<and>
     (\<forall>k < length recs. length (rows ! k) = length cols_order \<and>
        (\<forall>i < length cols_order. cols_order ! i \<noteq> ''ds'' \<longrightarrow>
           rows ! k ! i = coerce (dict_get (recs ! k) (cols_order ! i)) \<and>
           ((\<forall>s. dict_get (recs ! k) (cols_order ! i) = JStr s \<longrightarrow>
                 lower s \<noteq> ''true'' \<and> lower s \<noteq> ''false'') \<longrightarrow>
              rows ! k ! i = dict_get (recs ! k) (cols_order ! i)) \<and>
           (map_of (recs ! k) (cols_order ! i) = None \<longrightarrow> rows ! k ! i = JNull)))"
proof -
  have same: "coerce v = v"
    if "\<forall>s. v = JStr s \<longrightarrow> lower s \<noteq> ''true'' \<and> lower s \<noteq> ''false''" for v
    using that by (cases v) auto
  show ?thesis
    using same by (simp add: build_rows_dicts dict_get_def dict_get_default_def)
qed

text \<open>
  The claim as it was stated, that the row holds the same-named field itself, fails on
  a field holding such a text: the ticker symbol TRUE is stored as the boolean.
\<close>

theorem mapper_counterexample:
  "build_rows ''2026-11-04'' [ticker_true] =
     Inr [[JBool True, JStr ''TrueCar'', JNull, JNull, JNull, JNull, JNull,
           JNull, JNull, JNull, JNull, JNull, JStr ''2026-11-04'']] \<and>
   cols_order ! 0 = ''ticker'' \<and>
   py_get ticker_true ''ticker'' = Inr (JStr ''TRUE'') \<and>
   JBool True \<noteq> JStr ''TRUE''"
  by code_simp

text \<open>
  C9. Two records that agree on every field but \<^verbatim>\<open>ds\<close> have the same row, and the
  row's entry at the load-date column is the date the run computed: a \<^verbatim>\<open>ds\<close> field
  of the record is never read.
\<close>

theorem ds_field_of_record_is_ignored:
  assumes "\<forall>k. k \<noteq> ''ds'' \<longrightarrow> map_of d k = map_of d' k"
  shows "build_row today (JObj d) cols_order = build_row today (JObj d') cols_order \<and>
         (\<exists>row. build_row today (JObj d) cols_order = Inr row \<and>
                length row = length cols_order \<and>
                (\<forall>i < length cols_order. cols_order ! i = ''ds'' \<longrightarrow> row ! i = JStr today))"
  using assms by (simp add: build_row_dict dict_get_def dict_get_default_def)

section \<open>The batch a run writes\<close>

lemma writer_batch:
  assumes "write_to_snowflake cfg wh today tickers = (tr, res)"
    and "SfExecuteMany q rows \<in> set tr"
  shows "q = insert_sql cfg \<and> rows \<noteq> [] \<and> build_rows today tickers = Inr rows"
  using assms
  by (auto simp: write_to_snowflake_def write_body_def insert_rows_def close_all_def Let_def
      split: if_splits option.splits sum.splits prod.splits)

lemma page_step_no_driver_call:
  "page_step cfg data acc = (evs, r) \<Longrightarrow> \<forall>e \<in> set evs. \<not> is_driver_call e"
  by (auto simp: page_step_def is_driver_call_def Let_def
      split: json.splits if_splits sum.splits)

lemma fetch_pages_no_driver_call:
  "fetch_pages cfg script url acc tr = Some (tr', r) \<Longrightarrow>
   \<forall>e \<in> set tr. \<not> is_driver_call e \<Longrightarrow> \<forall>e \<in> set tr'. \<not> is_driver_call e"
proof (induction script arbitrary: url acc tr)
  case Nil
  then show ?case by (auto split: if_splits)
next
  case (Cons p script)
  show ?case
  proof (cases "truthy url")
    case False
    with Cons.prems show ?thesis by simp
  next
    case True
    let ?tr1 = "tr @ [PrintRequesting url, HttpGet url]"
    have tr1: "\<forall>e \<in> set ?tr1. \<not> is_driver_call e"
      using Cons.prems(2) by (auto simp: is_driver_call_def)
    show ?thesis
    proof (cases p)
      case (Inl e)
      with True Cons.prems(1) tr1 show ?thesis by auto
    next
      case (Inr resp)
      show ?thesis
      proof (cases "json_result resp")
        case (Inl e)
        with True Inr Cons.prems(1) tr1 show ?thesis
          by (auto simp: is_driver_call_def Let_def split: if_splits)
      next
        case data: (Inr data)
        obtain evs st where st: "page_step cfg data acc = (evs, st)"
          by (cases "page_step cfg data acc")
        from page_step_no_driver_call [OF st] tr1
        have tr2: "\<forall>e \<in> set (?tr1 @ evs). \<not> is_driver_call e" by auto
        show ?thesis
        proof (cases st)
          case (Inl e)
          with True Inr data st Cons.prems(1) tr2 show ?thesis by auto
        next
          case cont: (Inr c)
          show ?thesis
          proof (cases c)
            case (Inl fin)
            with True Inr data st cont Cons.prems(1) tr2 show ?thesis by auto
          next
            case next_pass: (Inr n)
            obtain url' acc' where n: "n = (url', acc')" by (cases n) auto
            from True Inr data st cont next_pass n Cons.prems(1)
            have "fetch_pages cfg script url' acc' (?tr1 @ evs) = Some (tr', r)" by simp
            from Cons.IH [OF this tr2] show ?thesis .
          qed
        qed
      qed
    qed
  qed
qed

text \<open>
  C4 (as amended). Whatever batch a run of the job hands to the driver's batched insert,
  the batch is non-empty, every row of it is as long as the schema, and its entry at the
  load-date column is one single value, the same for all rows: the date string the
  writer reads once in that run, at line 115, after the pagination and the creation of
  the table.
\<close>

theorem load_date_is_one_value:
  assumes "run_stock_job cfg script wh today = Some (tr, res)"
    and "SfExecuteMany q rows \<in> set tr"
  shows "rows \<noteq> [] \<and>
         (\<forall>row \<in> set rows. length row = length cols_order \<and>
            (\<forall>i < length cols_order. cols_order ! i = ''ds'' \<longrightarrow> row ! i = JStr today)) \<and>
         (\<exists>i < length cols_order. cols_order ! i = ''ds'')"
proof -
  from assms(1) obtain tr1 fres where
    f: "fetch_pages cfg script (JStr (first_url cfg)) [] [] = Some (tr1, fres)"
    by (auto simp: run_stock_job_def split: option.splits)
  from fetch_pages_no_driver_call [OF f] have no: "SfExecuteMany q rows \<notin> set tr1"
    by (auto simp: is_driver_call_def)
  from assms f no obtain tickers where fres: "fres = Inr tickers"
    by (cases fres) (auto simp: run_stock_job_def)
  obtain tr2 wres where w: "write_to_snowflake cfg wh today tickers = (tr2, wres)"
    by (cases "write_to_snowflake cfg wh today tickers")
  from assms f fres w no have "SfExecuteMany q rows \<in> set tr2"
    by (auto simp: run_stock_job_def split: sum.splits)
  from writer_batch [OF w this] have ne: "rows \<noteq> []" and b: "build_rows today tickers = Inr rows"
    by simp_all
  have "\<exists>i < length cols_order. cols_order ! i = ''ds''"
    by (rule exI [of _ 12]) (simp add: cols_order_eq)
  with ne build_rows_ds [OF b] show ?thesis by blast
qed

text \<open>
  The claim as it was stated, that this value is the date on which the run started,
  fails on a run that starts before midnight and pauses between two pages: the wrapper
  prints a start on 4 November, and every row of the batch carries 5 November.
\<close>

theorem load_date_counterexample:
  "scheduled_stock_job cfg0 env_midnight =
     Some ([PrintSyncStarted ''2026-11-04 23:59:50.000000'',
            PrintRequesting (JStr (first_url cfg0)), HttpGet (JStr (first_url cfg0)), Sleep 15,
            PrintRequesting (JStr ''https://api.polygon.io/v3/reference/tickers?cursor=X&apiKey=KEY''),
            HttpGet (JStr ''https://api.polygon.io/v3/reference/tickers?cursor=X&apiKey=KEY''),
            SfConnect (Some ''u'') (Some ''p'') (Some ''a'') (Some ''w'') (Some ''d'') (Some ''s''),
            SfCursor, PrintConnected, SfExecute (create_table_sql cfg0),
            PrintTableVerified ''stock_tickers'',
            SfExecuteMany (insert_sql cfg0)
              [[JStr ''A'', JStr ''Agilent'', JNull, JNull, JNull, JNull, JBool True,
                JNull, JNull, JNull, JNull, JNull, JStr ''2026-11-05''],
               [JStr ''B'', JNull, JNull, JNull, JNull, JNull, JBool False,
                JNull, JNull, JNull, JNull, JNull, JStr ''2026-11-05''],
               [JStr ''C'', JNull, JBool False, JNull, JNull, JNull, JNull,
                JNull, JNull, JNull, JNull, JNull, JStr ''2026-11-05'']],
            SfCommit, PrintInserted 3 ''stock_tickers'',
            SfCursorClose, SfConnClose, PrintClosed,
            PrintWrote 3 ''stock_tickers'',
            PrintSyncCompleted ''2026-11-05 00:00:06.000000''], Inr ()) \<and>
   start_date (env_started env_midnight) = ''2026-11-04'' \<and>
   JStr ''2026-11-05'' \<noteq> JStr (start_date (env_started env_midnight))"
  by code_simp

section \<open>Failures of the warehouse\<close>



section \<open>The scheduler\<close>

lemma scheduled_stock_job_no_raise: "scheduled_stock_job cfg env \<noteq> Some (tr, Inl e)"
  by (auto simp: scheduled_stock_job_def split: option.splits prod.splits sum.splits)

lemma run_pending_no_raise: "run_pending cfg due \<noteq> Some (tr, Inl e)"
  using scheduled_stock_job_no_raise
  by (auto simp: run_pending_def split: option.splits prod.splits)

lemma main_loop_no_raise: "main_loop cfg polls \<noteq> Some (tr, Inl e)"
proof (induction polls arbitrary: tr)
  case Nil
  show ?case by simp
next
  case (Cons due polls)
  show ?case
    using Cons.IH run_pending_no_raise [of cfg due]
    by (auto split: option.splits prod.splits sum.splits)
qed

lemma main_loop_runs_on:
  "\<forall>env. Some env \<in> set polls \<longrightarrow>
     run_stock_job cfg (env_script env) (env_warehouse env) (env_today env) \<noteq> None \<Longrightarrow>
   \<exists>tr. main_loop cfg polls = Some (tr, Inr ()) \<and> (polls \<noteq> [] \<longrightarrow> last tr = Sleep 60)"
proof (induction polls)
  case Nil
  show ?case by simp
next
  case (Cons due polls)
  from Cons obtain tr where tr: "main_loop cfg polls = Some (tr, Inr ())"
    and l: "polls \<noteq> [] \<longrightarrow> last tr = Sleep 60"
    by auto
  have "run_pending cfg due \<noteq> None"
    using Cons.prems
    by (cases due) (auto simp: run_pending_def scheduled_stock_job_def
        split: option.splits prod.splits sum.splits)
  then obtain tr0 where "run_pending cfg due = Some (tr0, Inr ())"
    using run_pending_no_raise [of cfg due]
    by (cases "run_pending cfg due") (auto, metis old.unit.exhaust sum.exhaust_sel surj_pair sum.collapse)
  with tr l show ?case
    by (cases "polls = []") auto
qed

text \<open>
  C8. When the job ends with an exception, the wrapper prints the failure with its
  timestamp and the exception, and returns normally; the wrapper never ends with an
  exception. So no exception ever ends the polling loop, and when every due run
  finishes, the loop is still running after any number of polls, having reached the
  sleep that follows the last of them.
\<close>

theorem scheduler_outlives_job_failures:
  "(run_stock_job cfg (env_script env) (env_warehouse env) (env_today env) = Some (tr, Inl e) \<longrightarrow>
      scheduled_stock_job cfg env =
        Some ([PrintSyncStarted (env_started env)] @ tr @ [PrintSyncFailed (env_ended env) e],
              Inr ())) \<and>
   (\<forall>tr' e'. scheduled_stock_job cfg env \<noteq> Some (tr', Inl e')) \<and>
   (\<forall>tr' e'. main_loop cfg polls \<noteq> Some (tr', Inl e')) \<and>
   ((\<forall>env. Some env \<in> set polls \<longrightarrow>
       run_stock_job cfg (env_script env) (env_warehouse env) (env_today env) \<noteq> None) \<longrightarrow>
    (\<exists>tr'. main_loop cfg polls = Some (tr', Inr ()) \<and>
           (polls \<noteq> [] \<longrightarrow> last tr' = Sleep 60)))"
  using scheduled_stock_job_no_raise main_loop_no_raise main_loop_runs_on [of polls cfg]
  by (auto simp: scheduled_stock_job_def)

section \<open>The statements on sample runs\<close>

lemma run_two_pages:
  "run_stock_job cfg0 [page1, page2] wh_ok ''2026-11-04'' =
     Some ([PrintRequesting (JStr (first_url cfg0)), HttpGet (JStr (first_url cfg0)), Sleep 15,
            PrintRequesting (JStr ''https://api.polygon.io/v3/reference/tickers?cursor=X&apiKey=KEY''),
            HttpGet (JStr ''https://api.polygon.io/v3/reference/tickers?cursor=X&apiKey=KEY''),
            SfConnect (Some ''u'') (Some ''p'') (Some ''a'') (Some ''w'') (Some ''d'') (Some ''s''),
            SfCursor, PrintConnected, SfExecute (create_table_sql cfg0),
            PrintTableVerified ''stock_tickers'',
            SfExecuteMany (insert_sql cfg0)
              [[JStr ''A'', JStr ''Agilent'', JNull, JNull, JNull, JNull, JBool True,
                JNull, JNull, JNull, JNull, JNull, JStr ''2026-11-04''],
               [JStr ''B'', JNull, JNull, JNull, JNull, JNull, JBool False,
                JNull, JNull, JNull, JNull, JNull, JStr ''2026-11-04''],
               [JStr ''C'', JNull, JBool False, JNull, JNull, JNull, JNull,
                JNull, JNull, JNull, JNull, JNull, JStr ''2026-11-04'']],
            SfCommit, PrintInserted 3 ''stock_tickers'',
            SfCursorClose, SfConnClose, PrintClosed,
            PrintWrote 3 ''stock_tickers''], Inr ())"
  by code_simp

theorem load_date_witness:
  "\<exists>tr res q rows. run_stock_job cfg0 [page1, page2] wh_ok ''2026-11-04'' = Some (tr, res) \<and>
     SfExecuteMany q rows \<in> set tr \<and> length rows = 3 \<and>
     map (\<lambda>row. row ! 12) rows = [JStr ''2026-11-04'', JStr ''2026-11-04'', JStr ''2026-11-04'']"
proof -
  let ?rows = "[[JStr ''A'', JStr ''Agilent'', JNull, JNull, JNull, JNull, JBool True,
                JNull, JNull, JNull, JNull, JNull, JStr ''2026-11-04''],
               [JStr ''B'', JNull, JNull, JNull, JNull, JNull, JBool False,
                JNull, JNull, JNull, JNull, JNull, JStr ''2026-11-04''],
               [JStr ''C'', JNull, JBool False, JNull, JNull, JNull, JNull,
                JNull, JNull, JNull, JNull, JNull, JStr ''2026-11-04'']]"
  obtain tr where run: "run_stock_job cfg0 [page1, page2] wh_ok ''2026-11-04'' = Some (tr, Inr ())"
    and mem: "SfExecuteMany (insert_sql cfg0) ?rows \<in> set tr"
    using run_two_pages by simp
  from load_date_is_one_value [OF run mem]
  have "\<forall>row \<in> set ?rows. row ! 12 = JStr ''2026-11-04''"
    by (simp add: cols_order_eq)
  then have "map (\<lambda>row. row ! 12) ?rows =
      [JStr ''2026-11-04'', JStr ''2026-11-04'', JStr ''2026-11-04'']"
    by simp
  with run mem show ?thesis
    by (intro exI [of _ tr] exI [of _ "Inr ()"] exI [of _ "insert_sql cfg0"] exI [of _ ?rows]) simp
qed

lemma lower_TRUE: "lower ''TRUE'' = ''true''"
  by code_simp

lemma lower_false: "lower ''false'' = ''false''"
  by code_simp

theorem boolean_text_witness:
  "(\<exists>row. build_row ''2026-11-04'' ticker_a cols_order = Inr row \<and> row ! 6 = JBool True) \<and>
   (\<exists>row. build_row ''2026-11-04'' ticker_c cols_order = Inr row \<and> row ! 2 = JBool False) \<and>
   (\<exists>row. build_row ''2026-11-04'' ticker_b cols_order = Inr row \<and> row ! 6 = JBool False)"
proof -
  obtain ra where ra: "build_row ''2026-11-04''
      (JObj [(''ticker'', JStr ''A''), (''name'', JStr ''Agilent''), (''active'', JStr ''TRUE'')])
      cols_order = Inr ra"
    by (simp add: build_row_dict)
  obtain rb where rb: "build_row ''2026-11-04''
      (JObj [(''ticker'', JStr ''B''), (''active'', JBool False), (''ds'', JStr ''1999-01-01'')])
      cols_order = Inr rb"
    by (simp add: build_row_dict)
  obtain rc where rc: "build_row ''2026-11-04''
      (JObj [(''ticker'', JStr ''C''), (''market'', JStr ''false'')]) cols_order = Inr rc"
    by (simp add: build_row_dict)
  have "ra ! 6 = JBool True"
    using boolean_text_is_coerced [OF ra, of 6] lower_TRUE
    by (simp add: cols_order_eq dict_get_def dict_get_default_def)
  moreover have "rc ! 2 = JBool False"
    using boolean_text_is_coerced [OF rc, of 2] lower_false
    by (simp add: cols_order_eq dict_get_def dict_get_default_def)
  moreover have "rb ! 6 = JBool False"
    using boolean_text_is_coerced [OF rb, of 6]
    by (simp add: cols_order_eq dict_get_def dict_get_default_def)
  ultimately show ?thesis
    using ra rb rc by (simp add: ticker_a_def ticker_b_def ticker_c_def)
qed

theorem mapper_rows_witness:
  "\<exists>rows. build_rows ''2026-11-04'' [ticker_a, ticker_b] = Inr rows \<and> length rows = 2 \<and>
     length (rows ! 1) = 13 \<and> rows ! 1 ! 0 = JStr ''B'' \<and> rows ! 1 ! 1 = JNull"
proof -
  let ?a = "[(''ticker'', JStr ''A''), (''name'', JStr ''Agilent''), (''active'', JStr ''TRUE'')]"
  let ?b = "[(''ticker'', JStr ''B''), (''active'', JBool False), (''ds'', JStr ''1999-01-01'')]"
  from mapper_rows_follow_schema [of "''2026-11-04''" "[?a, ?b]"]
  obtain rows where rows: "build_rows ''2026-11-04'' (map JObj [?a, ?b]) = Inr rows"
    and len: "length rows = length [?a, ?b]"
    and each: "\<forall>k < length [?a, ?b]. length (rows ! k) = length cols_order \<and>
        (\<forall>i < length cols_order. cols_order ! i \<noteq> ''ds'' \<longrightarrow>
           rows ! k ! i = coerce (dict_get ([?a, ?b] ! k) (cols_order ! i)) \<and>
           ((\<forall>s. dict_get ([?a, ?b] ! k) (cols_order ! i) = JStr s \<longrightarrow>
                 lower s \<noteq> ''true'' \<and> lower s \<noteq> ''false'') \<longrightarrow>
              rows ! k ! i = dict_get ([?a, ?b] ! k) (cols_order ! i)) \<and>
           (map_of ([?a, ?b] ! k) (cols_order ! i) = None \<longrightarrow> rows ! k ! i = JNull))"
    by blast
  have "(1::nat) < length [?a, ?b]" by simp
  with each have k1: "length (rows ! 1) = length cols_order \<and>
        (\<forall>i < length cols_order. cols_order ! i \<noteq> ''ds'' \<longrightarrow>
           rows ! 1 ! i = coerce (dict_get ([?a, ?b] ! 1) (cols_order ! i)) \<and>
           (map_of ([?a, ?b] ! 1) (cols_order ! i) = None \<longrightarrow> rows ! 1 ! i = JNull))"
    by blast
  then have l: "length (rows ! 1) = 13"
    by (simp add: cols_order_eq)
  from k1 have "0 < length cols_order \<longrightarrow> cols_order ! 0 \<noteq> ''ds'' \<longrightarrow>
      rows ! 1 ! 0 = coerce (dict_get ([?a, ?b] ! 1) (cols_order ! 0))"
    by blast
  then have c0: "rows ! 1 ! 0 = JStr ''B''"
    by (simp add: cols_order_eq dict_get_def dict_get_default_def lower_def lower_char_def)
  from k1 have "1 < length cols_order \<longrightarrow> cols_order ! 1 \<noteq> ''ds'' \<longrightarrow>
      map_of ([?a, ?b] ! 1) (cols_order ! 1) = None \<longrightarrow> rows ! 1 ! 1 = JNull"
    by blast
  then have c1: "rows ! 1 ! 1 = JNull"
    by (simp add: cols_order_eq)
  from rows len l c0 c1 show ?thesis
    by (intro exI [of _ rows]) (simp add: ticker_a_def ticker_b_def del: build_rows.simps)
qed

theorem ds_field_witness:
  "build_row ''2026-11-04'' ticker_b cols_order =
     build_row ''2026-11-04'' (JObj [(''ticker'', JStr ''B''), (''active'', JBool False)]) cols_order \<and>
   (\<exists>row. build_row ''2026-11-04'' ticker_b cols_order = Inr row \<and> row ! 12 = JStr ''2026-11-04'')"
proof -
  let ?b = "[(''ticker'', JStr ''B''), (''active'', JBool False), (''ds'', JStr ''1999-01-01'')]"
  let ?b' = "[(''ticker'', JStr ''B''), (''active'', JBool False)]"
  have h: "\<forall>k. k \<noteq> ''ds'' \<longrightarrow> map_of ?b k = map_of ?b' k"
    by auto
  from ds_field_of_record_is_ignored [OF h, of "''2026-11-04''"]
  obtain row where eq: "build_row ''2026-11-04'' (JObj ?b) cols_order =
        build_row ''2026-11-04'' (JObj ?b') cols_order"
    and row: "build_row ''2026-11-04'' (JObj ?b) cols_order = Inr row"
    and ds: "\<forall>i < length cols_order. cols_order ! i = ''ds'' \<longrightarrow> row ! i = JStr ''2026-11-04''"
    by blast
  from ds have "12 < length cols_order \<longrightarrow> cols_order ! 12 = ''ds'' \<longrightarrow>
      row ! 12 = JStr ''2026-11-04''"
    by blast
  then have r12: "row ! 12 = JStr ''2026-11-04''"
    by (simp add: cols_order_eq)
  have "\<exists>row. build_row ''2026-11-04'' (JObj ?b) cols_order = Inr row \<and>
      row ! 12 = JStr ''2026-11-04''"
    using row r12 by blast
  with eq show ?thesis
    unfolding ticker_b_def by blast
qed



lemma run_failing:
  "run_stock_job cfg0 (env_script env_failing) (env_warehouse env_failing) (env_today env_failing) =
     Some ([PrintRequesting (JStr (first_url cfg0)), HttpGet (JStr (first_url cfg0)),
            SfConnect (Some ''u'') (Some ''p'') (Some ''a'') (Some ''w'') (Some ''d'') (Some ''s''),
            PrintSnowflakeError db_error], Inl db_error)"
  by code_simp

theorem scheduler_witness:
  "scheduled_stock_job cfg0 env_failing =
     Some ([PrintSyncStarted ''09:00:00'',
            PrintRequesting (JStr (first_url cfg0)), HttpGet (JStr (first_url cfg0)),
            SfConnect (Some ''u'') (Some ''p'') (Some ''a'') (Some ''w'') (Some ''d'') (Some ''s''),
            PrintSnowflakeError db_error,
            PrintSyncFailed ''09:00:01'' db_error], Inr ()) \<and>
   (\<exists>tr. main_loop cfg0 [Some env_failing, None] = Some (tr, Inr ()) \<and> last tr = Sleep 60)"
proof -
  let ?tr = "[PrintRequesting (JStr (first_url cfg0)), HttpGet (JStr (first_url cfg0)),
      SfConnect (Some ''u'') (Some ''p'') (Some ''a'') (Some ''w'') (Some ''d'') (Some ''s''),
      PrintSnowflakeError db_error]"
  have h: "\<forall>env. Some env \<in> set [Some env_failing, None] \<longrightarrow>
       run_stock_job cfg0 (env_script env) (env_warehouse env) (env_today env) \<noteq> None"
    using run_failing by simp
  note t = scheduler_outlives_job_failures
    [of cfg0 env_failing ?tr db_error "[Some env_failing, None]"]
  from t run_failing have a: "scheduled_stock_job cfg0 env_failing =
      Some ([PrintSyncStarted (env_started env_failing)] @ ?tr @
            [PrintSyncFailed (env_ended env_failing) db_error], Inr ())"
    by blast
  from t h have "\<exists>tr'. main_loop cfg0 [Some env_failing, None] = Some (tr', Inr ()) \<and>
      ([Some env_failing, None] \<noteq> [] \<longrightarrow> last tr' = Sleep 60)"
    by blast
  then have b: "\<exists>tr. main_loop cfg0 [Some env_failing, None] = Some (tr, Inr ()) \<and>
      last tr = Sleep 60"
    by blast
  have s: "env_started env_failing = ''09:00:00''" and e: "env_ended env_failing = ''09:00:01''"
    by (simp_all add: env_failing_def)
  from a have "scheduled_stock_job cfg0 env_failing =
     Some ([PrintSyncStarted ''09:00:00'',
            PrintRequesting (JStr (first_url cfg0)), HttpGet (JStr (first_url cfg0)),
            SfConnect (Some ''u'') (Some ''p'') (Some ''a'') (Some ''w'') (Some ''d'') (Some ''s''),
            PrintSnowflakeError db_error,
            PrintSyncFailed ''09:00:01'' db_error], Inr ())"
    unfolding s e by simp
  with b show ?thesis by blast
qed

end
